theory Spec2Isabelle
  imports Main "HOL-Library.Monad_Syntax"
begin

section \<open>The typed value model\<close>

text \<open>
  Modelled from the spec: the typed value library (package \<open>cty\<close>) is an external
  collaborator whose source is not part of the resource implementation. The spec
  describes it as a dynamically typed value system with null, unknown and known
  values of arbitrary shape and with structural equality, and recommends a closed
  algebraic type. A value is a null of some type, an unknown of some type, or a
  known value; the type of a known value is computed from its shape.
  \<open>NilType\<close> is the zero type, so that \<open>NullVal NilType\<close> is the zero value of
  the value struct (\<open>cty.NilVal\<close>), which is what an unassigned response field holds.
\<close>

datatype cty_type =
    NilType
  | DynamicPseudoType
  | cty_String
  | cty_Number
  | cty_Bool
  | cty_List cty_type
  | cty_Tuple "cty_type list"
  | cty_Object "string \<rightharpoonup> cty_type"

datatype cty_value =
    NullVal cty_type
  | UnknownVal cty_type
  | StringVal string
  | NumberIntVal int
  | BoolVal bool
  | ListVal cty_type "cty_value list"
  | TupleVal "cty_value list"
  | ObjectVal "string \<rightharpoonup> cty_value"

abbreviation NilVal :: cty_value where
  "NilVal \<equiv> NullVal NilType"

primrec Type :: "cty_value \<Rightarrow> cty_type" where
  "Type (NullVal ty) = ty"
| "Type (UnknownVal ty) = ty"
| "Type (StringVal s) = cty_String"
| "Type (NumberIntVal n) = cty_Number"
| "Type (BoolVal b) = cty_Bool"
| "Type (ListVal ety vs) = cty_List ety"
| "Type (TupleVal vs) = cty_Tuple (map Type vs)"
| "Type (ObjectVal attrs) = cty_Object (map_option Type \<circ> attrs)"

text \<open>\<open>IsNull\<close> and \<open>IsKnown\<close> look at the outermost value only.\<close>

fun IsNull :: "cty_value \<Rightarrow> bool" where
  "IsNull (NullVal ty) = True"
| "IsNull v = False"

fun IsKnown :: "cty_value \<Rightarrow> bool" where
  "IsKnown (UnknownVal ty) = False"
| "IsKnown v = True"

text \<open>
  Raw structural equality compares type, nullness, unknownness and content; on the
  algebraic representation this is equality of terms.
\<close>

definition RawEquals :: "cty_value \<Rightarrow> cty_value \<Rightarrow> bool" where
  "RawEquals a b = (a = b)"

text \<open>
  A panic of the value library is the result \<open>None\<close>. \<open>GetAttr\<close> answers the
  dynamic unknown for a receiver of the dynamic pseudo-type, an unknown of the
  attribute's type for an unknown object, and panics for a receiver that is not an
  object, that lacks the attribute, or that is a null object.
\<close>

fun GetAttr :: "cty_value \<Rightarrow> string \<Rightarrow> cty_value option" where
  "GetAttr (ObjectVal attrs) name = attrs name"
| "GetAttr (UnknownVal ty) name =
     (case ty of
        DynamicPseudoType \<Rightarrow> Some (UnknownVal DynamicPseudoType)
      | cty_Object atys \<Rightarrow> map_option UnknownVal (atys name)
      | _ \<Rightarrow> None)"
| "GetAttr (NullVal ty) name =
     (case ty of
        DynamicPseudoType \<Rightarrow> Some (UnknownVal DynamicPseudoType)
      | _ \<Rightarrow> None)"
| "GetAttr v name = None"

text \<open>
  \<open>AsValueMap\<close> gives the attribute map of a known, non-null object. Both
  operations below call it on a receiver on which they call \<open>GetAttr\<close> right after,
  so every other receiver ends in a panic of the operation; the model raises it here.
\<close>

fun AsValueMap :: "cty_value \<Rightarrow> (string \<rightharpoonup> cty_value) option" where
  "AsValueMap (ObjectVal attrs) = Some attrs"
| "AsValueMap v = None"

datatype PathStep = GetAttrStep string | IndexStep cty_value

type_synonym Path = "PathStep list"

definition GetAttrPath :: "string \<Rightarrow> Path" where
  "GetAttrPath name = [GetAttrStep name]"

section \<open>Diagnostics, schema and the request and response structs\<close>

text \<open>
  Modelled from the spec: the diagnostics channel (package \<open>tfdiags\<close>) is not among
  the sources. The spec describes a diagnostics-accumulation interface: append an
  error, tagged with an optional attribute path, each diagnostic carrying a
  human-readable message. A diagnostic is either a plain error value or an
  attribute diagnostic with severity, summary, detail and path; appending puts the
  diagnostic at the end.
\<close>

datatype Severity = Error | Warning

datatype Diagnostic =
    nativeError string
  | AttributeValue Severity string string Path

type_synonym Diagnostics = "Diagnostic list"

definition Append :: "Diagnostics \<Rightarrow> Diagnostic \<Rightarrow> Diagnostics" where
  "Append diags d = diags @ [d]"

text \<open>
  Modelled from the spec: the schema structs (package \<open>configschema\<close>) and the
  implied type of a block are not among the sources. The spec's schema declares the
  attribute set and types, and the state codec decodes against the schema's implied
  shape: the object type with one attribute per schema attribute, of that
  attribute's type.
\<close>

record Attribute =
  AttrType :: cty_type
  Optional :: bool
  Computed :: bool

record Block =
  Attributes :: "string \<rightharpoonup> Attribute"

definition ImpliedType :: "Block \<Rightarrow> cty_type" where
  "ImpliedType b = cty_Object (map_option AttrType \<circ> Attributes b)"

definition dataResourceSchema :: Block where
  "dataResourceSchema = \<lparr>Attributes =
     [''input'' \<mapsto> \<lparr>AttrType = DynamicPseudoType, Optional = True, Computed = False\<rparr>,
      ''output'' \<mapsto> \<lparr>AttrType = DynamicPseudoType, Optional = False, Computed = True\<rparr>,
      ''trigger'' \<mapsto> \<lparr>AttrType = DynamicPseudoType, Optional = True, Computed = False\<rparr>,
      ''uuid'' \<mapsto> \<lparr>AttrType = cty_String, Optional = False, Computed = True\<rparr>]\<rparr>"

text \<open>
  Modelled from the spec: the request and response structs (package \<open>providers\<close>)
  are not among the sources; each record has the fields the operations read and
  write. A response starts as the zero value of its struct: the zero value, no
  replacement paths and no diagnostics.
\<close>

record ValidateResourceConfigRequest =
  Config :: cty_value

record ValidateResourceConfigResponse =
  validate_Diagnostics :: Diagnostics

record UpgradeResourceStateRequest =
  RawStateJSON :: string

record UpgradeResourceStateResponse =
  UpgradedState :: cty_value
  upgrade_Diagnostics :: Diagnostics

record PlanResourceChangeRequest =
  PriorState :: cty_value
  ProposedNewState :: cty_value

record PlanResourceChangeResponse =
  PlannedState :: cty_value
  RequiresReplace :: "Path list"
  plan_Diagnostics :: Diagnostics

record ApplyResourceChangeRequest =
  apply_PlannedState :: cty_value

record ApplyResourceChangeResponse =
  NewState :: cty_value
  apply_Diagnostics :: Diagnostics

section \<open>The operations of the resource\<close>

text \<open>The message built by the format \<open>%q attribute is read-only\<close>.\<close>

definition readOnlyError :: "string \<Rightarrow> string" where
  "readOnlyError attr = CHR 0x22 # attr @ CHR 0x22 # '' attribute is read-only''"

fun validateAttrs :: "cty_value \<Rightarrow> string list \<Rightarrow> Diagnostics \<Rightarrow> Diagnostics option" where
  "validateAttrs config [] diags = Some diags"
| "validateAttrs config (attr # attrs) diags =
     (case GetAttr config attr of
        None \<Rightarrow> None
      | Some v \<Rightarrow>
          validateAttrs config attrs
            (if \<not> IsNull v then Append diags (nativeError (readOnlyError attr)) else diags))"

definition validateDataResourceConfig ::
  "ValidateResourceConfigRequest \<Rightarrow> ValidateResourceConfigResponse option" where
  "validateDataResourceConfig req =
     (let resp = \<lparr>validate_Diagnostics = []\<rparr> in
      if IsNull (Config req) then Some resp
      else do {
        diags \<leftarrow> validateAttrs (Config req) [''uuid'', ''output''] (validate_Diagnostics resp);
        Some (resp\<lparr>validate_Diagnostics := diags\<rparr>)
      })"

text \<open>
  The decoder of the state encoding is an external collaborator and a parameter of
  the model: given the raw bytes and a type it answers an error message (\<open>Inl\<close>)
  or a value.
\<close>

definition upgradeDataResourceState ::
  "(string \<Rightarrow> cty_type \<Rightarrow> string + cty_value) \<Rightarrow> UpgradeResourceStateRequest
     \<Rightarrow> UpgradeResourceStateResponse" where
  "upgradeDataResourceState Unmarshal req =
     (let resp = \<lparr>UpgradedState = NilVal, upgrade_Diagnostics = []\<rparr>;
          ty = ImpliedType dataResourceSchema
      in case Unmarshal (RawStateJSON req) ty of
           Inl err \<Rightarrow> resp\<lparr>upgrade_Diagnostics := Append (upgrade_Diagnostics resp) (nativeError err)\<rparr>
         | Inr val \<Rightarrow> resp\<lparr>UpgradedState := val\<rparr>)"

definition planDataResourceChange ::
  "PlanResourceChangeRequest \<Rightarrow> PlanResourceChangeResponse option" where
  "planDataResourceChange req =
     (let resp = \<lparr>PlannedState = NilVal, RequiresReplace = [], plan_Diagnostics = []\<rparr> in
      if IsNull (ProposedNewState req) then
        Some (resp\<lparr>PlannedState := ProposedNewState req\<rparr>)
      else do {
        planned \<leftarrow> AsValueMap (ProposedNewState req);
        input \<leftarrow> GetAttr (ProposedNewState req) ''input'';
        trigger \<leftarrow> GetAttr (ProposedNewState req) ''trigger'';
        if IsNull (PriorState req) then
          let planned = planned(''uuid'' \<mapsto> UnknownVal cty_String);
              planned = (if \<not> IsNull input
                         then planned(''output'' \<mapsto> UnknownVal (Type input))
                         else planned)
          in Some (resp\<lparr>PlannedState := ObjectVal planned\<rparr>)
        else do {
          priorTrigger \<leftarrow> GetAttr (PriorState req) ''trigger'';
          if \<not> RawEquals priorTrigger trigger then
            let resp = resp\<lparr>RequiresReplace := RequiresReplace resp @ [GetAttrPath ''trigger'']\<rparr>;
                planned = planned(''uuid'' \<mapsto> UnknownVal cty_String);
                planned = (if IsNull input
                           then planned(''output'' \<mapsto> NullVal DynamicPseudoType)
                           else planned(''output'' \<mapsto> UnknownVal (Type input)))
            in Some (resp\<lparr>PlannedState := ObjectVal planned\<rparr>)
          else do {
            priorInput \<leftarrow> GetAttr (PriorState req) ''input'';
            let planned = (if \<not> RawEquals priorInput input
                           then planned(''output'' \<mapsto> UnknownVal (Type input))
                           else planned);
            Some (resp\<lparr>PlannedState := ObjectVal planned\<rparr>)
          }
        }
      })"

text \<open>
  The identifier generator and the test hook are parameters of the model. The
  generator's answer is the pair it returns, a string and an optional error; the
  hook is absent (\<open>None\<close>) or answers a string.
\<close>

definition applyDataResourceChange ::
  "string \<times> string option \<Rightarrow> string option \<Rightarrow> ApplyResourceChangeRequest
     \<Rightarrow> ApplyResourceChangeResponse option" where
  "applyDataResourceChange GenerateUUID testUUIDHook req =
     (let resp = \<lparr>NewState = NilVal, apply_Diagnostics = []\<rparr> in
      if IsNull (apply_PlannedState req) then
        Some (resp\<lparr>NewState := apply_PlannedState req\<rparr>)
      else do {
        newState \<leftarrow> AsValueMap (apply_PlannedState req);
        output \<leftarrow> GetAttr (apply_PlannedState req) ''output'';
        newState \<leftarrow> (if \<not> IsKnown output
                      then do {
                        input \<leftarrow> GetAttr (apply_PlannedState req) ''input'';
                        Some (newState(''output'' \<mapsto> input))
                      }
                      else Some newState);
        uuid \<leftarrow> GetAttr (apply_PlannedState req) ''uuid'';
        if \<not> IsKnown uuid then
          let (uuidString, err) = GenerateUUID;
              resp = (case err of
                        Some e \<Rightarrow>
                          resp\<lparr>apply_Diagnostics :=
                            Append (apply_Diagnostics resp)
                              (AttributeValue Error ''Error generating uuid'' e (GetAttrPath ''uuid''))\<rparr>
                      | None \<Rightarrow> resp);
              uuidString = (case testUUIDHook of Some hook \<Rightarrow> hook | None \<Rightarrow> uuidString);
              newState = newState(''uuid'' \<mapsto> StringVal uuidString)
          in Some (resp\<lparr>NewState := ObjectVal newState\<rparr>)
        else Some (resp\<lparr>NewState := ObjectVal newState\<rparr>)
      })"

text \<open>
  A non-null state of the resource is a known object that has the four attributes of
  the schema.
\<close>

definition isResourceObject :: "cty_value \<Rightarrow> bool" where
  "isResourceObject s =
     (case s of
        ObjectVal attrs \<Rightarrow>
          attrs ''input'' \<noteq> None \<and> attrs ''output'' \<noteq> None \<and>
          attrs ''trigger'' \<noteq> None \<and> attrs ''uuid'' \<noteq> None
      | _ \<Rightarrow> False)"

text \<open>
  The attribute map of a state given by its four attribute values, for writing
  concrete states.
\<close>

definition resourceAttrs ::
  "cty_value \<Rightarrow> cty_value \<Rightarrow> cty_value \<Rightarrow> cty_value \<Rightarrow> (string \<rightharpoonup> cty_value)" where
  "resourceAttrs input output trigger uuid =
     [''input'' \<mapsto> input, ''output'' \<mapsto> output, ''trigger'' \<mapsto> trigger, ''uuid'' \<mapsto> uuid]"

section \<open>Basic facts\<close>

lemma isResourceObject_ObjectVal:
  "isResourceObject (ObjectVal attrs) \<longleftrightarrow>
     attrs ''input'' \<noteq> None \<and> attrs ''output'' \<noteq> None \<and>
     attrs ''trigger'' \<noteq> None \<and> attrs ''uuid'' \<noteq> None"
  by (simp add: isResourceObject_def)

lemma isResourceObject_cases:
  assumes "isResourceObject s"
  obtains attrs i out t u where "s = ObjectVal attrs"
    and "attrs ''input'' = Some i" and "attrs ''output'' = Some out"
    and "attrs ''trigger'' = Some t" and "attrs ''uuid'' = Some u"
  using assms by (cases s) (auto simp: isResourceObject_def)

lemma isResourceObject_not_null: "isResourceObject s \<Longrightarrow> \<not> IsNull s"
  by (cases s) (simp_all add: isResourceObject_def)

lemma resourceAttrs_lookup:
  "resourceAttrs i out t u ''input'' = Some i"
  "resourceAttrs i out t u ''output'' = Some out"
  "resourceAttrs i out t u ''trigger'' = Some t"
  "resourceAttrs i out t u ''uuid'' = Some u"
  by (simp_all add: resourceAttrs_def)

lemma resourceAttrs_update:
  "(resourceAttrs i out t u)(''output'' \<mapsto> out') = resourceAttrs i out' t u"
  "(resourceAttrs i out t u)(''uuid'' \<mapsto> u') = resourceAttrs i out t u'"
  by (rule ext, simp add: resourceAttrs_def)+

lemma isResourceObject_resourceAttrs:
  "isResourceObject (ObjectVal (resourceAttrs i out t u))"
  by (simp add: isResourceObject_def resourceAttrs_lookup)

lemmas example_simps =
  resourceAttrs_lookup resourceAttrs_update isResourceObject_resourceAttrs RawEquals_def

section \<open>Destroy\<close>

text \<open>
  Claim C8. For every prior state, planning with a null proposed state answers
  that null state as the planned state, with no replacement path and no
  diagnostics; applying a null planned state answers that null state as the final
  state, with no diagnostics. Neither call panics.
\<close>

theorem destroy_round_trip:
  assumes "IsNull proposed" and "IsNull planned"
  shows "planDataResourceChange \<lparr>PriorState = S, ProposedNewState = proposed\<rparr>
           = Some \<lparr>PlannedState = proposed, RequiresReplace = [], plan_Diagnostics = []\<rparr>
       \<and> applyDataResourceChange GenerateUUID testUUIDHook \<lparr>apply_PlannedState = planned\<rparr>
           = Some \<lparr>NewState = planned, apply_Diagnostics = []\<rparr>"
  using assms by (simp add: planDataResourceChange_def applyDataResourceChange_def)

theorem destroy_round_trip_witness:
  "IsNull (NullVal (ImpliedType dataResourceSchema))
   \<and> planDataResourceChange
       \<lparr>PriorState = ObjectVal (resourceAttrs (StringVal ''a'') (StringVal ''a'') (StringVal ''t'') (StringVal ''U'')),
        ProposedNewState = NullVal (ImpliedType dataResourceSchema)\<rparr>
     = Some \<lparr>PlannedState = NullVal (ImpliedType dataResourceSchema),
             RequiresReplace = [], plan_Diagnostics = []\<rparr>
   \<and> applyDataResourceChange (''5f1c'', None) None
       \<lparr>apply_PlannedState = NullVal (ImpliedType dataResourceSchema)\<rparr>
     = Some \<lparr>NewState = NullVal (ImpliedType dataResourceSchema), apply_Diagnostics = []\<rparr>"
  using destroy_round_trip
    [of "NullVal (ImpliedType dataResourceSchema)" "NullVal (ImpliedType dataResourceSchema)"
        "ObjectVal (resourceAttrs (StringVal ''a'') (StringVal ''a'') (StringVal ''t'') (StringVal ''U''))"
        "(''5f1c'', None)" None]
  by simp

section \<open>Planning\<close>

text \<open>
  Claim C3. Create: for every non-null proposed state, when the prior state is null
  the plan sets \<open>uuid\<close> to the unknown string and asks for no replacement. The
  planned \<open>output\<close> is the unknown of the input's type when the proposed input is
  not null; when the proposed input is null the plan does not touch \<open>output\<close>, so
  a null proposed output remains null and is not turned into an unknown.
\<close>

theorem plan_create:
  assumes "IsNull prior" and "isResourceObject (ObjectVal attrs)"
    and "attrs ''input'' = Some input"
  shows "let planned = (if IsNull input then attrs(''uuid'' \<mapsto> UnknownVal cty_String)
                        else attrs(''uuid'' \<mapsto> UnknownVal cty_String,
                                   ''output'' \<mapsto> UnknownVal (Type input)))
         in planDataResourceChange \<lparr>PriorState = prior, ProposedNewState = ObjectVal attrs\<rparr>
              = Some \<lparr>PlannedState = ObjectVal planned, RequiresReplace = [],
                      plan_Diagnostics = []\<rparr>
          \<and> planned ''uuid'' = Some (UnknownVal cty_String)
          \<and> (\<not> IsNull input \<longrightarrow> planned ''output'' = Some (UnknownVal (Type input)))
          \<and> (IsNull input \<longrightarrow> planned ''output'' = attrs ''output'')"
  using assms
  by (auto simp: planDataResourceChange_def isResourceObject_ObjectVal)

theorem plan_create_witness:
  "planDataResourceChange
     \<lparr>PriorState = NullVal (ImpliedType dataResourceSchema),
      ProposedNewState = ObjectVal (resourceAttrs (StringVal ''a'') (NullVal DynamicPseudoType)
                                      (StringVal ''t'') (NullVal cty_String))\<rparr>
     = Some \<lparr>PlannedState = ObjectVal (resourceAttrs (StringVal ''a'') (UnknownVal cty_String)
                                         (StringVal ''t'') (UnknownVal cty_String)),
             RequiresReplace = [], plan_Diagnostics = []\<rparr>
   \<and> planDataResourceChange
     \<lparr>PriorState = NullVal (ImpliedType dataResourceSchema),
      ProposedNewState = ObjectVal (resourceAttrs (NullVal DynamicPseudoType) (NullVal DynamicPseudoType)
                                      (StringVal ''t'') (NullVal cty_String))\<rparr>
     = Some \<lparr>PlannedState = ObjectVal (resourceAttrs (NullVal DynamicPseudoType) (NullVal DynamicPseudoType)
                                         (StringVal ''t'') (UnknownVal cty_String)),
             RequiresReplace = [], plan_Diagnostics = []\<rparr>"
  using
    plan_create [of "NullVal (ImpliedType dataResourceSchema)"
      "resourceAttrs (StringVal ''a'') (NullVal DynamicPseudoType) (StringVal ''t'') (NullVal cty_String)"
      "StringVal ''a''"]
    plan_create [of "NullVal (ImpliedType dataResourceSchema)"
      "resourceAttrs (NullVal DynamicPseudoType) (NullVal DynamicPseudoType) (StringVal ''t'') (NullVal cty_String)"
      "NullVal DynamicPseudoType"]
  by (simp add: example_simps)

text \<open>
  Claim C1. Trigger change: for every non-null prior state and non-null proposed
  state whose triggers are not raw-equal, the plan asks for replacement of exactly
  the path of \<open>trigger\<close>, sets \<open>uuid\<close> to the unknown string, and sets \<open>output\<close>
  to the null of the dynamic pseudo-type when the proposed input is null and to the
  unknown of the input's type otherwise. Nothing is assumed about the inputs, so
  this is also the result when the input changed in the same cycle: the planned
  state is the one of the replacement branch, and the branch for a changed input
  contributes nothing.
\<close>

theorem plan_trigger_changed:
  assumes "isResourceObject prior" and "isResourceObject (ObjectVal attrs)"
    and "GetAttr prior ''trigger'' = Some priorTrigger"
    and "attrs ''trigger'' = Some trigger"
    and "attrs ''input'' = Some input"
    and "\<not> RawEquals priorTrigger trigger"
  shows "planDataResourceChange \<lparr>PriorState = prior, ProposedNewState = ObjectVal attrs\<rparr>
           = Some \<lparr>PlannedState = ObjectVal (attrs(''uuid'' \<mapsto> UnknownVal cty_String,
                       ''output'' \<mapsto> (if IsNull input then NullVal DynamicPseudoType
                                       else UnknownVal (Type input)))),
                   RequiresReplace = [GetAttrPath ''trigger''], plan_Diagnostics = []\<rparr>"
  using assms
  by (auto simp: planDataResourceChange_def dest: isResourceObject_not_null)

theorem plan_trigger_changed_witness:
  "\<not> RawEquals (StringVal ''t1'') (StringVal ''t2'')
   \<and> planDataResourceChange
       \<lparr>PriorState = ObjectVal (resourceAttrs (StringVal ''a'') (StringVal ''a'')
                                  (StringVal ''t1'') (StringVal ''U'')),
        ProposedNewState = ObjectVal (resourceAttrs (StringVal ''b'') (StringVal ''a'')
                                        (StringVal ''t2'') (StringVal ''U''))\<rparr>
     = Some \<lparr>PlannedState = ObjectVal (resourceAttrs (StringVal ''b'') (UnknownVal cty_String)
                                         (StringVal ''t2'') (UnknownVal cty_String)),
             RequiresReplace = [GetAttrPath ''trigger''], plan_Diagnostics = []\<rparr>
   \<and> planDataResourceChange
       \<lparr>PriorState = ObjectVal (resourceAttrs (StringVal ''a'') (StringVal ''a'')
                                  (StringVal ''t1'') (StringVal ''U'')),
        ProposedNewState = ObjectVal (resourceAttrs (NullVal DynamicPseudoType) (StringVal ''a'')
                                        (StringVal ''t2'') (StringVal ''U''))\<rparr>
     = Some \<lparr>PlannedState = ObjectVal (resourceAttrs (NullVal DynamicPseudoType)
                                         (NullVal DynamicPseudoType)
                                         (StringVal ''t2'') (UnknownVal cty_String)),
             RequiresReplace = [GetAttrPath ''trigger''], plan_Diagnostics = []\<rparr>"
  using
    plan_trigger_changed
      [of "ObjectVal (resourceAttrs (StringVal ''a'') (StringVal ''a'') (StringVal ''t1'') (StringVal ''U''))"
          "resourceAttrs (StringVal ''b'') (StringVal ''a'') (StringVal ''t2'') (StringVal ''U'')"
          "StringVal ''t1''" "StringVal ''t2''" "StringVal ''b''"]
    plan_trigger_changed
      [of "ObjectVal (resourceAttrs (StringVal ''a'') (StringVal ''a'') (StringVal ''t1'') (StringVal ''U''))"
          "resourceAttrs (NullVal DynamicPseudoType) (StringVal ''a'') (StringVal ''t2'') (StringVal ''U'')"
          "StringVal ''t1''" "StringVal ''t2''" "NullVal DynamicPseudoType"]
  by (simp add: example_simps)

text \<open>
  Claim C4. Input-only change: for every non-null prior and proposed state whose
  triggers are raw-equal and whose inputs are not, the plan sets \<open>output\<close> to the
  unknown of the new input's type, leaves \<open>uuid\<close> as proposed and asks for no
  replacement.
\<close>

theorem plan_input_changed:
  assumes "isResourceObject prior" and "isResourceObject (ObjectVal attrs)"
    and "GetAttr prior ''trigger'' = Some priorTrigger"
    and "attrs ''trigger'' = Some trigger"
    and "RawEquals priorTrigger trigger"
    and "GetAttr prior ''input'' = Some priorInput"
    and "attrs ''input'' = Some input"
    and "\<not> RawEquals priorInput input"
  shows "let planned = attrs(''output'' \<mapsto> UnknownVal (Type input))
         in planDataResourceChange \<lparr>PriorState = prior, ProposedNewState = ObjectVal attrs\<rparr>
              = Some \<lparr>PlannedState = ObjectVal planned, RequiresReplace = [],
                      plan_Diagnostics = []\<rparr>
          \<and> planned ''output'' = Some (UnknownVal (Type input))
          \<and> planned ''uuid'' = attrs ''uuid''"
  using assms
  by (auto simp: planDataResourceChange_def dest: isResourceObject_not_null)

theorem plan_input_changed_witness:
  "RawEquals (StringVal ''t'') (StringVal ''t'')
   \<and> \<not> RawEquals (StringVal ''a'') (NumberIntVal 7)
   \<and> planDataResourceChange
       \<lparr>PriorState = ObjectVal (resourceAttrs (StringVal ''a'') (StringVal ''a'')
                                  (StringVal ''t'') (StringVal ''U'')),
        ProposedNewState = ObjectVal (resourceAttrs (NumberIntVal 7) (StringVal ''a'')
                                        (StringVal ''t'') (StringVal ''U''))\<rparr>
     = Some \<lparr>PlannedState = ObjectVal (resourceAttrs (NumberIntVal 7) (UnknownVal cty_Number)
                                         (StringVal ''t'') (StringVal ''U'')),
             RequiresReplace = [], plan_Diagnostics = []\<rparr>"
  using
    plan_input_changed
      [of "ObjectVal (resourceAttrs (StringVal ''a'') (StringVal ''a'') (StringVal ''t'') (StringVal ''U''))"
          "resourceAttrs (NumberIntVal 7) (StringVal ''a'') (StringVal ''t'') (StringVal ''U'')"
          "StringVal ''t''" "StringVal ''t''" "StringVal ''a''" "NumberIntVal 7"]
  by (simp add: example_simps)

text \<open>
  Claim C5. No change: for every non-null state \<open>S\<close>, planning with \<open>S\<close> as
  both the prior and the proposed state answers exactly \<open>S\<close> as the planned state,
  with no replacement (and no diagnostics).
\<close>

theorem plan_no_change:
  assumes "isResourceObject S"
  shows "planDataResourceChange \<lparr>PriorState = S, ProposedNewState = S\<rparr>
           = Some \<lparr>PlannedState = S, RequiresReplace = [], plan_Diagnostics = []\<rparr>"
  using assms
  by (elim isResourceObject_cases) (simp add: planDataResourceChange_def RawEquals_def)

theorem plan_no_change_witness:
  "isResourceObject (ObjectVal (resourceAttrs (StringVal ''a'') (StringVal ''a'')
                                  (StringVal ''t'') (StringVal ''U'')))
   \<and> planDataResourceChange
       \<lparr>PriorState = ObjectVal (resourceAttrs (StringVal ''a'') (StringVal ''a'')
                                  (StringVal ''t'') (StringVal ''U'')),
        ProposedNewState = ObjectVal (resourceAttrs (StringVal ''a'') (StringVal ''a'')
                                        (StringVal ''t'') (StringVal ''U''))\<rparr>
     = Some \<lparr>PlannedState = ObjectVal (resourceAttrs (StringVal ''a'') (StringVal ''a'')
                                         (StringVal ''t'') (StringVal ''U'')),
             RequiresReplace = [], plan_Diagnostics = []\<rparr>"
  using
    plan_no_change
      [of "ObjectVal (resourceAttrs (StringVal ''a'') (StringVal ''a'') (StringVal ''t'') (StringVal ''U''))"]
  by (simp add: example_simps)

section \<open>Applying\<close>

text \<open>The result of applying a known object, in closed form.\<close>

lemma apply_object:
  assumes "attrs ''input'' = Some input" and "attrs ''output'' = Some out"
    and "attrs ''uuid'' = Some u"
  shows "applyDataResourceChange (uuidString, err) testUUIDHook
           \<lparr>apply_PlannedState = ObjectVal attrs\<rparr>
     = Some \<lparr>NewState = ObjectVal
               (let newState = (if IsKnown out then attrs else attrs(''output'' \<mapsto> input))
                in if IsKnown u then newState
                   else newState(''uuid'' \<mapsto>
                          StringVal (case testUUIDHook of Some hook \<Rightarrow> hook
                                     | None \<Rightarrow> uuidString))),
             apply_Diagnostics =
               (if IsKnown u then []
                else case err of
                       Some e \<Rightarrow> [AttributeValue Error ''Error generating uuid'' e
                                   (GetAttrPath ''uuid'')]
                     | None \<Rightarrow> [])\<rparr>"
  using assms
  by (simp add: applyDataResourceChange_def Append_def split: option.split)

text \<open>
  Claim C6. For every non-null planned state whose \<open>output\<close> is unknown and whose
  \<open>input\<close> is a known value \<open>v\<close>, apply returns (for every answer of the
  generator and every hook) a final state whose \<open>output\<close> is \<open>v\<close>.
\<close>

theorem apply_resolves_output:
  assumes "isResourceObject (ObjectVal attrs)"
    and "attrs ''output'' = Some out" and "\<not> IsKnown out"
    and "attrs ''input'' = Some v" and "IsKnown v"
  shows "\<exists>resp. applyDataResourceChange GenerateUUID testUUIDHook
                  \<lparr>apply_PlannedState = ObjectVal attrs\<rparr> = Some resp
           \<and> GetAttr (NewState resp) ''output'' = Some v"
proof -
  obtain u where u: "attrs ''uuid'' = Some u"
    using assms(1) by (auto simp: isResourceObject_ObjectVal)
  obtain uuidString err where g: "GenerateUUID = (uuidString, err)"
    by (cases GenerateUUID)
  show ?thesis
    unfolding g using assms(3)
    by (simp add: apply_object [OF assms(4) assms(2) u] Let_def)
qed

theorem apply_resolves_output_witness:
  "\<not> IsKnown (UnknownVal cty_String) \<and> IsKnown (StringVal ''a'')
   \<and> (\<exists>resp. applyDataResourceChange (''5f1c'', None) None
               \<lparr>apply_PlannedState = ObjectVal (resourceAttrs (StringVal ''a'') (UnknownVal cty_String)
                                                 (StringVal ''t'') (UnknownVal cty_String))\<rparr>
              = Some resp
         \<and> GetAttr (NewState resp) ''output'' = Some (StringVal ''a''))"
  using
    apply_resolves_output
      [of "resourceAttrs (StringVal ''a'') (UnknownVal cty_String) (StringVal ''t'') (UnknownVal cty_String)"
          "UnknownVal cty_String" "StringVal ''a''" "(''5f1c'', None)" None]
  by (simp add: example_simps)

text \<open>
  Claim C10. For every non-null planned state whose \<open>output\<close> is unknown, apply
  copies \<open>input\<close> into \<open>output\<close> as it is, whether or not \<open>input\<close> is known:
  the final \<open>output\<close> is known exactly when the planned \<open>input\<close> is, so with
  an unknown \<open>input\<close> the final state is not fully known.
\<close>

theorem apply_copies_input_verbatim:
  assumes "isResourceObject (ObjectVal attrs)"
    and "attrs ''output'' = Some out" and "\<not> IsKnown out"
    and "attrs ''input'' = Some input"
  shows "\<exists>resp. applyDataResourceChange GenerateUUID testUUIDHook
                  \<lparr>apply_PlannedState = ObjectVal attrs\<rparr> = Some resp
           \<and> GetAttr (NewState resp) ''output'' = Some input
           \<and> map_option IsKnown (GetAttr (NewState resp) ''output'') = Some (IsKnown input)"
proof -
  obtain u where u: "attrs ''uuid'' = Some u"
    using assms(1) by (auto simp: isResourceObject_ObjectVal)
  obtain uuidString err where g: "GenerateUUID = (uuidString, err)"
    by (cases GenerateUUID)
  show ?thesis
    unfolding g using assms(3)
    by (simp add: apply_object [OF assms(4) assms(2) u] Let_def)
qed

theorem apply_copies_input_verbatim_witness:
  "\<not> IsKnown (UnknownVal cty_Number)
   \<and> (\<exists>resp. applyDataResourceChange (''5f1c'', None) None
               \<lparr>apply_PlannedState = ObjectVal (resourceAttrs (UnknownVal cty_Number) (UnknownVal cty_Number)
                                                 (StringVal ''t'') (UnknownVal cty_String))\<rparr>
              = Some resp
         \<and> GetAttr (NewState resp) ''output'' = Some (UnknownVal cty_Number)
         \<and> map_option IsKnown (GetAttr (NewState resp) ''output'') = Some False)"
  using
    apply_copies_input_verbatim
      [of "resourceAttrs (UnknownVal cty_Number) (UnknownVal cty_Number) (StringVal ''t'') (UnknownVal cty_String)"
          "UnknownVal cty_Number" "UnknownVal cty_Number" "(''5f1c'', None)" None]
  by (simp add: example_simps)

text \<open>
  Claim C2, as the code has it. For every non-null planned state with unknown
  \<open>uuid\<close>, when the generator answers an error, apply appends one error diagnostic
  attached to the path of \<open>uuid\<close> and goes on: the final \<open>uuid\<close> is the known
  string value built from the hook's string when a hook is set and from the string
  the generator returned beside its error otherwise. \<open>input\<close> and \<open>trigger\<close>
  are as planned, and so is \<open>output\<close> when it was known.
\<close>

theorem apply_generator_failure:
  assumes "isResourceObject (ObjectVal attrs)"
    and "attrs ''uuid'' = Some u" and "\<not> IsKnown u"
    and "attrs ''output'' = Some out"
    and "attrs ''input'' = Some input"
  shows "let uuidValue = StringVal (case testUUIDHook of Some hook \<Rightarrow> hook | None \<Rightarrow> uuidString);
             final = (if IsKnown out then attrs else attrs(''output'' \<mapsto> input))
                       (''uuid'' \<mapsto> uuidValue)
         in applyDataResourceChange (uuidString, Some e) testUUIDHook
              \<lparr>apply_PlannedState = ObjectVal attrs\<rparr>
              = Some \<lparr>NewState = ObjectVal final,
                      apply_Diagnostics =
                        [AttributeValue Error ''Error generating uuid'' e (GetAttrPath ''uuid'')]\<rparr>
          \<and> final ''uuid'' = Some uuidValue \<and> IsKnown uuidValue
          \<and> final ''input'' = attrs ''input''
          \<and> final ''trigger'' = attrs ''trigger''
          \<and> (IsKnown out \<longrightarrow> final ''output'' = attrs ''output'')"
  using assms(3) by (simp add: apply_object [OF assms(5) assms(4) assms(2)] Let_def)

theorem apply_generator_failure_witness:
  "\<not> IsKnown (UnknownVal cty_String)
   \<and> applyDataResourceChange ('''', Some ''entropy source unavailable'') None
       \<lparr>apply_PlannedState = ObjectVal (resourceAttrs (StringVal ''a'') (StringVal ''a'')
                                         (StringVal ''t'') (UnknownVal cty_String))\<rparr>
     = Some \<lparr>NewState = ObjectVal (resourceAttrs (StringVal ''a'') (StringVal ''a'')
                                     (StringVal ''t'') (StringVal '''')),
             apply_Diagnostics =
               [AttributeValue Error ''Error generating uuid'' ''entropy source unavailable''
                  (GetAttrPath ''uuid'')]\<rparr>"
  using
    apply_generator_failure
      [where attrs = "resourceAttrs (StringVal ''a'') (StringVal ''a'') (StringVal ''t'') (UnknownVal cty_String)"
         and u = "UnknownVal cty_String" and out = "StringVal ''a''" and input = "StringVal ''a''"
         and testUUIDHook = None and uuidString = "''''"
         and e = "''entropy source unavailable''"]
  by (simp add: example_simps)

text \<open>
  Against claim C2 as stated: with a failing generator that returns the empty
  string beside its error, and no hook, the final \<open>uuid\<close> is the known empty
  string, not an unknown.
\<close>

theorem apply_generator_failure_uuid_known:
  "applyDataResourceChange ('''', Some ''entropy source unavailable'') None
     \<lparr>apply_PlannedState = ObjectVal (resourceAttrs (StringVal ''a'') (StringVal ''a'')
                                       (StringVal ''t'') (UnknownVal cty_String))\<rparr>
     = Some \<lparr>NewState = ObjectVal (resourceAttrs (StringVal ''a'') (StringVal ''a'')
                                     (StringVal ''t'') (StringVal '''')),
             apply_Diagnostics =
               [AttributeValue Error ''Error generating uuid'' ''entropy source unavailable''
                  (GetAttrPath ''uuid'')]\<rparr>
   \<and> GetAttr (ObjectVal (resourceAttrs (StringVal ''a'') (StringVal ''a'')
                           (StringVal ''t'') (StringVal ''''))) ''uuid'' = Some (StringVal '''')
   \<and> IsKnown (StringVal '''')"
  by (simp add: apply_object [OF resourceAttrs_lookup(1) resourceAttrs_lookup(2) resourceAttrs_lookup(4)]
        example_simps)

section \<open>Validation\<close>

lemma validateAttrs_computed:
  assumes "GetAttr config ''uuid'' = Some u" and "GetAttr config ''output'' = Some out"
  shows "validateAttrs config [''uuid'', ''output''] diags
     = Some (diags @ (if IsNull u then [] else [nativeError (readOnlyError ''uuid'')])
                   @ (if IsNull out then [] else [nativeError (readOnlyError ''output'')]))"
  using assms by (simp add: Append_def)

lemma readOnlyError_split:
  "readOnlyError attr = [CHR 0x22] @ attr @ (CHR 0x22 # '' attribute is read-only'')"
  by (simp add: readOnlyError_def)

lemma named_in_diags:
  assumes "nativeError (readOnlyError attr) \<in> set diags"
  shows "\<exists>pre post. nativeError (pre @ attr @ post) \<in> set diags"
  using assms unfolding readOnlyError_split by blast

text \<open>
  Claim C7. Validation of a null configuration returns no diagnostics. For every
  non-null configuration (one on which both computed attributes can be read), the
  diagnostics are the error with the message \<open>"uuid" attribute is read-only\<close> when
  the value of \<open>uuid\<close> is not null, followed by the error with the message
  \<open>"output" attribute is read-only\<close> when the value of \<open>output\<close> is not null. So
  for each computed attribute that is set there is a diagnostic whose message
  contains the attribute's name, and there is no diagnostic when both are null.
\<close>

theorem validate_read_only:
  "(IsNull config \<longrightarrow>
      validateDataResourceConfig \<lparr>Config = config\<rparr> = Some \<lparr>validate_Diagnostics = []\<rparr>)
   \<and> (\<not> IsNull config \<and> GetAttr config ''uuid'' = Some u
        \<and> GetAttr config ''output'' = Some out \<longrightarrow>
      (let uuidMsg = CHR 0x22 # ''uuid'' @ CHR 0x22 # '' attribute is read-only'';
           outputMsg = CHR 0x22 # ''output'' @ CHR 0x22 # '' attribute is read-only'';
           diags = (if IsNull u then [] else [nativeError uuidMsg])
                     @ (if IsNull out then [] else [nativeError outputMsg])
       in validateDataResourceConfig \<lparr>Config = config\<rparr> = Some \<lparr>validate_Diagnostics = diags\<rparr>
        \<and> (\<not> IsNull u \<longrightarrow> nativeError uuidMsg \<in> set diags)
        \<and> (\<not> IsNull out \<longrightarrow> nativeError outputMsg \<in> set diags)
        \<and> (\<not> IsNull u \<longrightarrow> (\<exists>pre post. nativeError (pre @ ''uuid'' @ post) \<in> set diags))
        \<and> (\<not> IsNull out \<longrightarrow> (\<exists>pre post. nativeError (pre @ ''output'' @ post) \<in> set diags))
        \<and> (IsNull u \<and> IsNull out \<longrightarrow> diags = [])))"
proof (intro conjI impI)
  assume "IsNull config"
  then show "validateDataResourceConfig \<lparr>Config = config\<rparr> = Some \<lparr>validate_Diagnostics = []\<rparr>"
    by (simp add: validateDataResourceConfig_def)
next
  assume a: "\<not> IsNull config \<and> GetAttr config ''uuid'' = Some u
        \<and> GetAttr config ''output'' = Some out"
  then have u: "GetAttr config ''uuid'' = Some u" and out: "GetAttr config ''output'' = Some out"
    and nn: "\<not> IsNull config"
    by simp_all
  define diags where "diags = (if IsNull u then [] else [nativeError (readOnlyError ''uuid'')])
                     @ (if IsNull out then [] else [nativeError (readOnlyError ''output'')])"
  have run: "validateDataResourceConfig \<lparr>Config = config\<rparr> = Some \<lparr>validate_Diagnostics = diags\<rparr>"
    using nn
    by (simp add: validateDataResourceConfig_def validateAttrs_computed [OF u out] diags_def
          del: validateAttrs.simps)
  have mu: "\<not> IsNull u \<longrightarrow> nativeError (readOnlyError ''uuid'') \<in> set diags"
    and mo: "\<not> IsNull out \<longrightarrow> nativeError (readOnlyError ''output'') \<in> set diags"
    and none: "IsNull u \<and> IsNull out \<longrightarrow> diags = []"
    by (simp_all add: diags_def)
  have nu: "\<not> IsNull u \<longrightarrow> (\<exists>pre post. nativeError (pre @ ''uuid'' @ post) \<in> set diags)"
    and no: "\<not> IsNull out \<longrightarrow> (\<exists>pre post. nativeError (pre @ ''output'' @ post) \<in> set diags)"
    using mu mo by (blast intro: named_in_diags)+
  have eu: "CHR 0x22 # ''uuid'' @ CHR 0x22 # '' attribute is read-only'' = readOnlyError ''uuid''"
    and eo: "CHR 0x22 # ''output'' @ CHR 0x22 # '' attribute is read-only'' = readOnlyError ''output''"
    by (simp_all add: readOnlyError_def)
  show "let uuidMsg = CHR 0x22 # ''uuid'' @ CHR 0x22 # '' attribute is read-only'';
           outputMsg = CHR 0x22 # ''output'' @ CHR 0x22 # '' attribute is read-only'';
           diags = (if IsNull u then [] else [nativeError uuidMsg])
                     @ (if IsNull out then [] else [nativeError outputMsg])
       in validateDataResourceConfig \<lparr>Config = config\<rparr> = Some \<lparr>validate_Diagnostics = diags\<rparr>
        \<and> (\<not> IsNull u \<longrightarrow> nativeError uuidMsg \<in> set diags)
        \<and> (\<not> IsNull out \<longrightarrow> nativeError outputMsg \<in> set diags)
        \<and> (\<not> IsNull u \<longrightarrow> (\<exists>pre post. nativeError (pre @ ''uuid'' @ post) \<in> set diags))
        \<and> (\<not> IsNull out \<longrightarrow> (\<exists>pre post. nativeError (pre @ ''output'' @ post) \<in> set diags))
        \<and> (IsNull u \<and> IsNull out \<longrightarrow> diags = [])"
    unfolding Let_def eu eo diags_def [symmetric]
    using run mu mo nu no none by blast
qed

theorem validate_read_only_witness:
  "validateDataResourceConfig \<lparr>Config = NullVal (ImpliedType dataResourceSchema)\<rparr>
     = Some \<lparr>validate_Diagnostics = []\<rparr>
   \<and> validateDataResourceConfig
       \<lparr>Config = ObjectVal (resourceAttrs (StringVal ''a'') (NullVal DynamicPseudoType)
                              (StringVal ''t'') (StringVal ''U''))\<rparr>
     = Some \<lparr>validate_Diagnostics =
               [nativeError (CHR 0x22 # ''uuid'' @ CHR 0x22 # '' attribute is read-only'')]\<rparr>
   \<and> validateDataResourceConfig
       \<lparr>Config = ObjectVal (resourceAttrs (StringVal ''a'') (UnknownVal DynamicPseudoType)
                              (StringVal ''t'') (StringVal ''U''))\<rparr>
     = Some \<lparr>validate_Diagnostics =
               [nativeError (CHR 0x22 # ''uuid'' @ CHR 0x22 # '' attribute is read-only''),
                nativeError (CHR 0x22 # ''output'' @ CHR 0x22 # '' attribute is read-only'')]\<rparr>
   \<and> validateDataResourceConfig
       \<lparr>Config = ObjectVal (resourceAttrs (StringVal ''a'') (NullVal DynamicPseudoType)
                              (StringVal ''t'') (NullVal cty_String))\<rparr>
     = Some \<lparr>validate_Diagnostics = []\<rparr>"
  using
    validate_read_only
      [of "NullVal (ImpliedType dataResourceSchema)" "StringVal ''U''" "StringVal ''a''"]
    validate_read_only
      [of "ObjectVal (resourceAttrs (StringVal ''a'') (NullVal DynamicPseudoType) (StringVal ''t'') (StringVal ''U''))"
          "StringVal ''U''" "NullVal DynamicPseudoType"]
    validate_read_only
      [of "ObjectVal (resourceAttrs (StringVal ''a'') (UnknownVal DynamicPseudoType) (StringVal ''t'') (StringVal ''U''))"
          "StringVal ''U''" "UnknownVal DynamicPseudoType"]
    validate_read_only
      [of "ObjectVal (resourceAttrs (StringVal ''a'') (NullVal DynamicPseudoType) (StringVal ''t'') (NullVal cty_String))"
          "NullVal cty_String" "NullVal DynamicPseudoType"]
  by (simp add: example_simps Let_def del: validateAttrs.simps)

section \<open>State upgrade\<close>

lemma ImpliedType_dataResourceSchema:
  "ImpliedType dataResourceSchema =
     cty_Object [''input'' \<mapsto> DynamicPseudoType, ''output'' \<mapsto> DynamicPseudoType,
                 ''trigger'' \<mapsto> DynamicPseudoType, ''uuid'' \<mapsto> cty_String]"
  by (auto simp: ImpliedType_def dataResourceSchema_def fun_eq_iff)

text \<open>
  Claim C9. State upgrade hands the raw state to the decoder together with the
  implied type of the schema, the object type of the four attributes. When the
  decoder answers an error, the response has no upgraded value (the field keeps
  its zero value) and the one diagnostic made of that error; when it answers a
  value, the response has that value, unchanged, and no diagnostics.
\<close>

theorem upgrade_decodes:
  "ImpliedType dataResourceSchema =
     cty_Object [''input'' \<mapsto> DynamicPseudoType, ''output'' \<mapsto> DynamicPseudoType,
                 ''trigger'' \<mapsto> DynamicPseudoType, ''uuid'' \<mapsto> cty_String]
   \<and> (Unmarshal (RawStateJSON req) (ImpliedType dataResourceSchema) = Inl err \<longrightarrow>
      upgradeDataResourceState Unmarshal req
        = \<lparr>UpgradedState = NilVal, upgrade_Diagnostics = [nativeError err]\<rparr>)
   \<and> (Unmarshal (RawStateJSON req) (ImpliedType dataResourceSchema) = Inr val \<longrightarrow>
      upgradeDataResourceState Unmarshal req
        = \<lparr>UpgradedState = val, upgrade_Diagnostics = []\<rparr>)"
  by (simp add: upgradeDataResourceState_def Append_def ImpliedType_dataResourceSchema)

theorem upgrade_decodes_witness:
  "upgradeDataResourceState
     (\<lambda>raw ty. if raw = ''null'' then Inr (NullVal ty) else Inl ''invalid character'')
     \<lparr>RawStateJSON = ''{''\<rparr>
     = \<lparr>UpgradedState = NilVal, upgrade_Diagnostics = [nativeError ''invalid character'']\<rparr>
   \<and> upgradeDataResourceState
     (\<lambda>raw ty. if raw = ''null'' then Inr (NullVal ty) else Inl ''invalid character'')
     \<lparr>RawStateJSON = ''null''\<rparr>
     = \<lparr>UpgradedState = NullVal (ImpliedType dataResourceSchema), upgrade_Diagnostics = []\<rparr>"
  using
    upgrade_decodes
      [of "\<lambda>raw ty. if raw = ''null'' then Inr (NullVal ty) else Inl ''invalid character''"
          "\<lparr>RawStateJSON = ''{''\<rparr>" "''invalid character''" "NilVal"]
    upgrade_decodes
      [of "\<lambda>raw ty. if raw = ''null'' then Inr (NullVal ty) else Inl ''invalid character''"
          "\<lparr>RawStateJSON = ''null''\<rparr>" "''invalid character''"
          "NullVal (ImpliedType dataResourceSchema)"]
  by simp

end
